theory Spec2Isabelle
  imports Main "HOL-Library.Sublist"
begin

section \<open>Numbers of the JavaScript runtime\<close>

text \<open>
  A JavaScript \<open>number\<close> is a double: \<open>Finite s m e\<close> is the value \<open>m * 2 ^ e\<close>, negative when
  \<open>s\<close> holds, beside the two infinities and NaN. Subtraction computes the exact difference
  and rounds it to the nearest double, ties to even: 53 significant bits, least exponent
  \<open>-1074\<close>, overflow to infinity from \<open>2 ^ 1024\<close> on. \<open>round_magnitude\<close> rounds the magnitude
  and returns \<open>None\<close> on overflow. The type also holds values with more than 53 significant
  bits, which are not doubles; the theorems hold for them as well, and every concrete
  input is a double.
\<close>

datatype number = Finite bool nat int | Infinity bool | NaN

definition number_of_int :: "int \<Rightarrow> number" where
  "number_of_int i = Finite (i < 0) (nat \<bar>i\<bar>) 0"

text \<open>The double \<open>i / 2 ^ k\<close>.\<close>

definition dyadic :: "int \<Rightarrow> nat \<Rightarrow> number" where
  "dyadic i k = Finite (i < 0) (nat \<bar>i\<bar>) (- int k)"

fun bit_length :: "nat \<Rightarrow> nat" where
  "bit_length n = (if n = 0 then 0 else 1 + bit_length (n div 2))"

declare bit_length.simps [simp del]

definition round_magnitude :: "nat \<Rightarrow> int \<Rightarrow> (nat \<times> int) option" where
  "round_magnitude m e =
     (if m = 0 then Some (0, 0)
      else
        (let n = int (bit_length m);
             k = max (n - 53) (- 1074 - e)
         in if k \<le> 0
            then (if n + e > 1024 then None else Some (m, e))
            else
              (let d = 2 ^ nat k;
                   q = m div d;
                   r = m mod d;
                   half = 2 ^ (nat k - 1);
                   q' = (if r > half \<or> (r = half \<and> odd q) then q + 1 else q)
               in if int (bit_length q') + (e + k) > 1024 then None else Some (q', e + k))))"

definition round_to_double :: "bool \<Rightarrow> nat \<Rightarrow> int \<Rightarrow> number" where
  "round_to_double s m e =
     (case round_magnitude m e of None \<Rightarrow> Infinity s | Some (q, x) \<Rightarrow> Finite s q x)"

definition signed :: "bool \<Rightarrow> nat \<Rightarrow> int" where
  "signed s m = (if s then - int m else int m)"

text \<open>The operator \<open>-\<close> on numbers.\<close>

fun dsub :: "number \<Rightarrow> number \<Rightarrow> number" where
  "dsub (Finite sa ma ea) (Finite sb mb eb) =
     (let e = min ea eb;
          d = signed sa (ma * 2 ^ nat (ea - e)) - signed sb (mb * 2 ^ nat (eb - e))
      in if d = 0 then Finite (sa \<and> \<not> sb) 0 0
         else round_to_double (d < 0) (nat \<bar>d\<bar>) e)"
| "dsub (Finite sa ma ea) (Infinity sb) = Infinity (\<not> sb)"
| "dsub (Infinity sa) (Finite sb mb eb) = Infinity sa"
| "dsub (Infinity sa) (Infinity sb) = (if sa = sb then NaN else Infinity sa)"
| "dsub NaN b = NaN"
| "dsub a NaN = NaN"

text \<open>\<open>Math.abs\<close>.\<close>

fun dabs :: "number \<Rightarrow> number" where
  "dabs (Finite s m e) = Finite False m e"
| "dabs (Infinity s) = Infinity False"
| "dabs NaN = NaN"

text \<open>The operator \<open><\<close> on numbers; a comparison with NaN is false.\<close>

fun dless :: "number \<Rightarrow> number \<Rightarrow> bool" where
  "dless (Finite sa ma ea) (Finite sb mb eb) =
     (let e = min ea eb
      in signed sa (ma * 2 ^ nat (ea - e)) < signed sb (mb * 2 ^ nat (eb - e)))"
| "dless (Finite sa ma ea) (Infinity sb) = (\<not> sb)"
| "dless (Infinity sa) (Finite sb mb eb) = sa"
| "dless (Infinity sa) (Infinity sb) = (sa \<and> \<not> sb)"
| "dless NaN b = False"
| "dless a NaN = False"

section \<open>Shared types (types.ts)\<close>

text \<open>
  A page index is an \<open>int\<close>, a count or a counter a \<open>nat\<close>; every other number of the source
  is a \<open>number\<close>. A \<open>string\<close> is a list of code units below 256.

  Field names that the interfaces of the source share, or that Isabelle already uses, are
  renamed: the fields of \<open>TextSpan\<close> carry the prefix \<open>span_\<close>, those of \<open>PageText\<close> the
  prefix \<open>pt_\<close>, those of \<open>PageDimension\<close> the prefix \<open>pd_\<close>, and \<open>DocumentInfo.id\<close> is
  \<open>doc_id\<close>. The fields of \<open>EditOperation\<close> keep their names.
\<close>

record Rect =
  x0 :: number
  y0 :: number
  x1 :: number
  y1 :: number

record TextSpan =
  span_text :: string
  span_font :: string
  span_size :: number
  span_color :: string
  span_rect :: Rect
  span_flags :: int

record PageText =
  pt_page :: int
  pt_width :: number
  pt_height :: number
  spans :: "TextSpan list"

record PageDimension =
  pd_page :: int
  pd_width :: number
  pd_height :: number

record DocumentInfo =
  doc_id :: string
  filename :: string
  pageCount :: nat
  pages :: "PageDimension list"

record EditOperation =
  key :: string
  page :: int
  rect :: Rect
  original_text :: string
  new_text :: string
  font :: string
  font_size :: number
  color :: string

section \<open>Edit management (App.tsx)\<close>

text \<open>
  The callback of \<open>findIndex\<close> in \<open>handleAddEdit\<close>: \<open>e\<close> is the stored edit, \<open>edit\<close> the
  incoming one. The comparison is strict and is made on the rounded difference: a
  difference that rounds to one point does not match.
\<close>

definition sameRect :: "EditOperation \<Rightarrow> EditOperation \<Rightarrow> bool" where
  "sameRect edit e \<longleftrightarrow>
     page e = page edit \<and>
     dless (dabs (dsub (x0 (rect e)) (x0 (rect edit)))) (number_of_int 1) \<and>
     dless (dabs (dsub (y0 (rect e)) (y0 (rect edit)))) (number_of_int 1)"

text \<open>\<open>Array.prototype.findIndex\<close>: the first index whose element passes, \<open>-1\<close> when none does.\<close>

fun findIndex :: "('a \<Rightarrow> bool) \<Rightarrow> 'a list \<Rightarrow> int" where
  "findIndex P [] = - 1"
| "findIndex P (x # xs) =
     (if P x then 0
      else (let i = findIndex P xs in if i < 0 then - 1 else i + 1))"

definition handleAddEdit :: "EditOperation list \<Rightarrow> EditOperation \<Rightarrow> EditOperation list" where
  "handleAddEdit prev edit =
     (let idx = findIndex (sameRect edit) prev
      in if idx \<ge> 0 then prev[nat idx := edit] else prev @ [edit])"

definition handleRemoveEdit :: "EditOperation list \<Rightarrow> string \<Rightarrow> EditOperation list" where
  "handleRemoveEdit prev k = filter (\<lambda>e. key e \<noteq> k) prev"

text \<open>A run of additions from a starting list, in submission order.\<close>

definition addEdits :: "EditOperation list \<Rightarrow> EditOperation list \<Rightarrow> EditOperation list" where
  "addEdits prev submitted = foldl handleAddEdit prev submitted"

text \<open>No two positions of the list hold edits that match one another.\<close>

fun keyed :: "EditOperation list \<Rightarrow> bool" where
  "keyed [] = True"
| "keyed (e # es) = (list_all (\<lambda>e'. \<not> sameRect e e') es \<and> keyed es)"

text \<open>The matching relation is transitive on the edits of a list.\<close>

definition transitiveOn :: "EditOperation list \<Rightarrow> bool" where
  "transitiveOn es \<longleftrightarrow>
     list_all (\<lambda>a. list_all (\<lambda>b. list_all (\<lambda>c.
       sameRect a b \<and> sameRect b c \<longrightarrow> sameRect a c) es) es) es"

text \<open>
  The position of the last occurrence of an edit in the submissions, counted from one
  (zero when it was never submitted), and the order by last submission.
\<close>

fun lastSubmitted :: "EditOperation list \<Rightarrow> EditOperation \<Rightarrow> nat" where
  "lastSubmitted [] e = 0"
| "lastSubmitted (s # ss) e =
     (let n = lastSubmitted ss e
      in if n > 0 then Suc n else if s = e then 1 else 0)"

definition inLastSubmittedOrder :: "EditOperation list \<Rightarrow> EditOperation list \<Rightarrow> bool" where
  "inLastSubmittedOrder submitted es \<longleftrightarrow>
     sorted_wrt (\<lambda>a b. lastSubmitted submitted a < lastSubmitted submitted b) es"

section \<open>Strings and numbers of the JavaScript runtime\<close>

text \<open>Template interpolation of a non-negative integer: its decimal digits.\<close>

definition digit_char :: "nat \<Rightarrow> char" where
  "digit_char d = ''0123456789'' ! d"

fun show_nat :: "nat \<Rightarrow> string" where
  "show_nat n = (if n < 10 then [digit_char n] else show_nat (n div 10) @ [digit_char (n mod 10)])"

declare show_nat.simps [simp del]

text \<open>
  \<open>String.prototype.trim\<close> removes leading and trailing white space and line terminators;
  below code unit 256 these are tab, line feed, vertical tab, form feed, carriage return,
  space and the no-break space.
\<close>

definition is_space :: "char \<Rightarrow> bool" where
  "is_space c \<longleftrightarrow> c \<in> set [CHR 0x09, CHR 0x0A, CHR 0x0B, CHR 0x0C, CHR 0x0D, CHR 0x20, CHR 0xA0]"

definition trim :: "string \<Rightarrow> string" where
  "trim s = rev (dropWhile is_space (rev (dropWhile is_space s)))"

section \<open>API client (api.ts)\<close>

text \<open>
  A thrown value with its \<open>message\<close>, if it has one. A response as the code reads it:
  \<open>body_text\<close> is what \<open>res.text()\<close> resolves to (\<open>None\<close> when it rejects, which the source
  catches); \<open>body\<close> is the outcome of \<open>res.json()\<close> or \<open>res.blob()\<close>, which the source
  returns as it is: the value read, or the rejection (\<open>Inl\<close>) when the body cannot be read.
  \<open>fetch\<close> is the environment: it rejects (\<open>Inl\<close>) or resolves to a response (\<open>Inr\<close>).
  \<open>BASE\<close> comes from the build environment and is a parameter.
\<close>

datatype exn = Exn (message: "string option")

datatype json =
  JNumber number
| JString string
| JArray "json list"
| JObject "(string \<times> json) list"

record File =
  file_name :: string
  file_bytes :: string

datatype request_body = NoBody | FormData File | JsonText json

record request_init =
  http_method :: string
  headers :: "(string \<times> string) list"
  req_body :: request_body

record 'b response =
  ok :: bool
  status :: nat
  body_text :: "string option"
  body :: "exn + 'b"

type_synonym 'b fetch = "string \<Rightarrow> request_init option \<Rightarrow> exn + 'b response"

type_synonym blob = string

definition text_or_empty :: "'b response \<Rightarrow> string" where
  "text_or_empty res = (case body_text res of None \<Rightarrow> [] | Some t \<Rightarrow> t)"

definition request :: "string \<Rightarrow> 'b fetch \<Rightarrow> string \<Rightarrow> request_init option \<Rightarrow> exn + 'b" where
  "request BASE fetch path init =
     (case fetch (BASE @ path) init of
        Inl rejected \<Rightarrow> Inl rejected
      | Inr res \<Rightarrow>
          if \<not> ok res
          then Inl (Exn (Some (''API '' @ show_nat (status res) @ '': '' @ text_or_empty res)))
          else body res)"

definition uploadDocument :: "string \<Rightarrow> DocumentInfo fetch \<Rightarrow> File \<Rightarrow> exn + DocumentInfo" where
  "uploadDocument BASE fetch f =
     request BASE fetch ''/api/documents''
       (Some \<lparr>http_method = ''POST'', headers = [], req_body = FormData f\<rparr>)"

definition listFonts :: "string \<Rightarrow> string list fetch \<Rightarrow> string \<Rightarrow> exn + string list" where
  "listFonts BASE fetch docId = request BASE fetch (''/api/documents/'' @ docId @ ''/fonts'') None"

text \<open>
  The own properties of an \<open>EditOperation\<close> object, in the order in which \<open>confirmEdit\<close>
  writes them, and the rest pattern \<open>({ key, ...rest }) => rest\<close>.
\<close>

definition rect_json :: "Rect \<Rightarrow> json" where
  "rect_json r = JObject [(''x0'', JNumber (x0 r)), (''y0'', JNumber (y0 r)),
                          (''x1'', JNumber (x1 r)), (''y1'', JNumber (y1 r))]"

definition edit_properties :: "EditOperation \<Rightarrow> (string \<times> json) list" where
  "edit_properties e =
     [(''key'', JString (key e)),
      (''page'', JNumber (number_of_int (page e))),
      (''rect'', rect_json (rect e)),
      (''original_text'', JString (original_text e)),
      (''new_text'', JString (new_text e)),
      (''font'', JString (font e)),
      (''font_size'', JNumber (font_size e)),
      (''color'', JString (color e))]"

definition rest_without_key :: "(string \<times> json) list \<Rightarrow> (string \<times> json) list" where
  "rest_without_key props = filter (\<lambda>p. fst p \<noteq> ''key'') props"

definition export_payload :: "EditOperation list \<Rightarrow> json" where
  "export_payload es =
     JObject [(''edits'', JArray (map (\<lambda>e. JObject (rest_without_key (edit_properties e))) es))]"

text \<open>
  The request body is the JSON text of the payload; it is kept as the JSON value. The
  address and the options of the \<open>fetch\<close> call of \<open>exportDocument\<close> are named.
\<close>

definition export_url :: "string \<Rightarrow> string \<Rightarrow> string" where
  "export_url BASE docId = BASE @ ''/api/documents/'' @ docId @ ''/export''"

definition export_init :: "json \<Rightarrow> request_init" where
  "export_init payload =
     \<lparr>http_method = ''POST'',
      headers = [(''Content-Type'', ''application/json'')],
      req_body = JsonText payload\<rparr>"

definition exportDocument :: "string \<Rightarrow> blob fetch \<Rightarrow> string \<Rightarrow> EditOperation list \<Rightarrow> exn + blob" where
  "exportDocument BASE fetch docId es =
     (let payload = export_payload es
      in case fetch (export_url BASE docId) (Some (export_init payload)) of
           Inl rejected \<Rightarrow> Inl rejected
         | Inr res \<Rightarrow>
             if \<not> ok res
             then Inl (Exn (Some (''Export failed ('' @ show_nat (status res) @ ''): '' @ text_or_empty res)))
             else body res)"

section \<open>Application state (App.tsx)\<close>

datatype toast_type = success | error

record Toast =
  toast_id :: nat
  toast_message :: string
  toast_kind :: toast_type

text \<open>
  The state hooks of \<open>App\<close> and the module counter \<open>toastId\<close>. The timer that removes a
  toast after four seconds is not part of the model.
\<close>

record app_state =
  docInfo :: "DocumentInfo option"
  uploading :: bool
  exporting :: bool
  currentPage :: int
  zoom :: number
  edits :: "EditOperation list"
  toasts :: "Toast list"
  toastId :: nat

definition addToast :: "string \<Rightarrow> toast_type \<Rightarrow> app_state \<Rightarrow> app_state" where
  "addToast msg kind st =
     (let i = toastId st + 1
      in st\<lparr>toastId := i,
            toasts := toasts st @ [\<lparr>toast_id = i, toast_message = msg, toast_kind = kind\<rparr>]\<rparr>)"

definition message_or :: "exn \<Rightarrow> string \<Rightarrow> string" where
  "message_or err dflt = (case message err of None \<Rightarrow> dflt | Some m \<Rightarrow> m)"

text \<open>The toast of a successful upload; the accented letter is the code unit \<open>0xE1\<close>.\<close>

definition loaded_message :: "DocumentInfo \<Rightarrow> string" where
  "loaded_message info =
     [CHR 0x22] @ filename info @ [CHR 0x22] @ '' carregado ('' @ show_nat (pageCount info)
       @ '' p'' @ [CHR 0xE1] @ ''gina'' @ (if pageCount info > 1 then ''s'' else [])
       @ '')''"

definition handleFile :: "string \<Rightarrow> DocumentInfo fetch \<Rightarrow> File \<Rightarrow> app_state \<Rightarrow> app_state" where
  "handleFile BASE fetch f st =
     (let st1 = st\<lparr>uploading := True\<rparr>;
          st2 = (case uploadDocument BASE fetch f of
                   Inr info \<Rightarrow>
                     addToast (loaded_message info) success
                       (st1\<lparr>docInfo := Some info, currentPage := 0, edits := []\<rparr>)
                 | Inl err \<Rightarrow> addToast (message_or err ''Erro no upload'') error st1)
      in st2\<lparr>uploading := False\<rparr>)"

definition handleResetEdits :: "app_state \<Rightarrow> app_state" where
  "handleResetEdits st = st\<lparr>edits := []\<rparr>"

text \<open>
  \<open>handleExport\<close> returns the new state and the download it triggers, if any: the file
  name and the bytes handed to the browser.
\<close>

definition handleExport :: "string \<Rightarrow> blob fetch \<Rightarrow> app_state \<Rightarrow> app_state \<times> (string \<times> blob) option" where
  "handleExport BASE fetch st =
     (case docInfo st of
        None \<Rightarrow> (st, None)
      | Some info \<Rightarrow>
          if length (edits st) = 0 then (st, None)
          else
            (let st1 = st\<lparr>exporting := True\<rparr>
             in case exportDocument BASE fetch (doc_id info) (edits st) of
                  Inr b \<Rightarrow>
                    ((addToast ''PDF exportado com sucesso!'' success st1)\<lparr>exporting := False\<rparr>,
                     Some (''edited_'' @ filename info, b))
                | Inl err \<Rightarrow>
                    ((addToast (message_or err ''Erro ao exportar'') error st1)\<lparr>exporting := False\<rparr>,
                     None)))"

text \<open>The \<open>disabled\<close> attribute of the export button of the toolbar.\<close>

definition Toolbar_export_disabled :: "nat \<Rightarrow> bool \<Rightarrow> bool" where
  "Toolbar_export_disabled editCount is_exporting \<longleftrightarrow> editCount = 0 \<or> is_exporting"

section \<open>The viewer (PdfViewer.tsx)\<close>

text \<open>
  The state hooks of \<open>PdfViewer\<close>; the module counter \<open>_editCounter\<close> is threaded beside
  them. \<open>edits\<close> and \<open>currentPage\<close> are props and arrive as arguments.
\<close>

record viewer_state =
  pageText :: "PageText option"
  loadedFonts :: "string set"
  editingSpan :: "TextSpan option"
  editValue :: string

definition nextEditKey :: "nat \<Rightarrow> nat \<times> string" where
  "nextEditKey editCounter = (editCounter + 1, ''edit-'' @ show_nat (editCounter + 1))"




text \<open>
  \<open>confirmEdit\<close> returns the counter, the new state and the edit it hands to \<open>onAddEdit\<close>,
  if any.
\<close>

definition confirmEdit :: "int \<Rightarrow> nat \<Rightarrow> viewer_state \<Rightarrow> nat \<times> viewer_state \<times> EditOperation option" where
  "confirmEdit cur editCounter v =
     (case editingSpan v of
        None \<Rightarrow> (editCounter, v, None)
      | Some sp \<Rightarrow>
          (let trimmed = trim (editValue v);
               closed = v\<lparr>editingSpan := None, editValue := []\<rparr>
           in if trimmed \<noteq> [] \<and> trimmed \<noteq> span_text sp
              then (let (counter', k) = nextEditKey editCounter
                    in (counter', closed,
                        Some \<lparr>key = k, page = cur, rect = span_rect sp,
                              original_text = span_text sp, new_text = trimmed,
                              font = span_font sp, font_size = span_size sp,
                              color = span_color sp\<rparr>))
              else (editCounter, closed, None)))"

text \<open>
  \<open>App\<close> passes \<open>handleAddEdit\<close> as \<open>onAddEdit\<close> and its own \<open>currentPage\<close>: confirming in
  the viewer, seen from the application state.
\<close>

definition confirmEdit_in_App :: "app_state \<Rightarrow> nat \<Rightarrow> viewer_state \<Rightarrow> app_state \<times> nat \<times> viewer_state" where
  "confirmEdit_in_App st editCounter v =
     (case confirmEdit (currentPage st) editCounter v of
        (counter', v', None) \<Rightarrow> (st, counter', v')
      | (counter', v', Some edit) \<Rightarrow> (st\<lparr>edits := handleAddEdit (edits st) edit\<rparr>, counter', v'))"

text \<open>
  \<open>loadFonts\<close>. The environment gives the outcome of creating and loading the font face
  of each font name (the address comes from \<open>fontFileUrl\<close>, which is total on these
  strings) and whether the effect was cancelled when that font had loaded. \<open>captured\<close> is
  the \<open>loadedFonts\<close> of the render that started the effect. Each function returns a thrown
  value or a result; the two \<open>catch\<close> blocks of the source are the \<open>Inl\<close> cases.
\<close>

fun loadFonts_loop :: "(string \<Rightarrow> exn + unit) \<Rightarrow> (string \<Rightarrow> bool) \<Rightarrow> string set \<Rightarrow> string list \<Rightarrow> string set \<Rightarrow> exn + string set" where
  "loadFonts_loop face_load cancelled captured [] loaded = Inr loaded"
| "loadFonts_loop face_load cancelled captured (name # names) loaded =
     (if name \<in> captured then loadFonts_loop face_load cancelled captured names loaded
      else (case face_load name of
              Inl failed \<Rightarrow> loadFonts_loop face_load cancelled captured names loaded
            | Inr u \<Rightarrow>
                loadFonts_loop face_load cancelled captured names
                  (if \<not> cancelled name then insert name loaded else loaded)))"

definition loadFonts :: "string \<Rightarrow> string list fetch \<Rightarrow> (string \<Rightarrow> exn + unit) \<Rightarrow> (string \<Rightarrow> bool) \<Rightarrow> string \<Rightarrow> string set \<Rightarrow> exn + string set" where
  "loadFonts BASE fetch face_load cancelled docId loaded =
     (case (case listFonts BASE fetch docId of
              Inl failed \<Rightarrow> Inl failed
            | Inr fontNames \<Rightarrow> loadFonts_loop face_load cancelled loaded fontNames loaded) of
        Inl caught \<Rightarrow> Inr loaded
      | Inr loaded' \<Rightarrow> Inr loaded')"

text \<open>The \<open>fontFamily\<close> of the inline editor.\<close>

definition fontFamily :: "string set \<Rightarrow> string \<Rightarrow> string" where
  "fontFamily loaded f =
     (if f \<in> loaded then [CHR 0x22] @ f @ [CHR 0x22] @ '', sans-serif'' else ''sans-serif'')"

section \<open>Concrete inputs\<close>

text \<open>
  Edits on page 0 of a 612 by 792 point page, with a given key, left edge and text. The
  left edges are 100, 100.25, 300, 101.5 and 100.75.
\<close>

definition example_edit :: "string \<Rightarrow> number \<Rightarrow> string \<Rightarrow> EditOperation" where
  "example_edit k x t =
     \<lparr>key = k, page = 0,
      rect = \<lparr>x0 = x, y0 = number_of_int 700, x1 = number_of_int 550, y1 = number_of_int 718\<rparr>,
      original_text = ''Hello World'', new_text = t, font = ''Roboto-Regular'',
      font_size = number_of_int 11, color = ''#000000''\<rparr>"

definition edit_A :: EditOperation where "edit_A = example_edit ''edit-1'' (number_of_int 100) ''Bonjour Monde''"
definition edit_A' :: EditOperation where "edit_A' = example_edit ''edit-3'' (dyadic 401 2) ''Salut''"
definition edit_B :: EditOperation where "edit_B = example_edit ''edit-2'' (number_of_int 300) ''Monde''"
definition edit_N :: EditOperation where "edit_N = example_edit ''edit-2'' (dyadic 203 1) ''Near''"
definition edit_M :: EditOperation where "edit_M = example_edit ''edit-3'' (dyadic 403 2) ''Middle''"

text \<open>Edits with the left edges 1 and \<open>2 ^ - 60\<close>, whose difference rounds to 1.\<close>

definition edit_one :: EditOperation where "edit_one = example_edit ''edit-1'' (number_of_int 1) ''One''"
definition edit_tiny :: EditOperation where "edit_tiny = example_edit ''edit-2'' (dyadic 1 60) ''Tiny''"
definition edit_half :: EditOperation where "edit_half = example_edit ''edit-3'' (dyadic 1 1) ''Half''"

text \<open>A loaded document, an application state without edits, a span and servers.\<close>

definition example_doc :: DocumentInfo where
  "example_doc =
     \<lparr>doc_id = ''doc-1'', filename = ''sample.pdf'', pageCount = 2,
      pages = [\<lparr>pd_page = 0, pd_width = number_of_int 612, pd_height = number_of_int 792\<rparr>,
               \<lparr>pd_page = 1, pd_width = number_of_int 612, pd_height = number_of_int 792\<rparr>]\<rparr>"

definition other_doc :: DocumentInfo where
  "other_doc =
     \<lparr>doc_id = ''doc-2'', filename = ''other.pdf'', pageCount = 1,
      pages = [\<lparr>pd_page = 0, pd_width = number_of_int 612, pd_height = number_of_int 792\<rparr>]\<rparr>"

definition example_state :: app_state where
  "example_state =
     \<lparr>docInfo = Some example_doc, uploading = False, exporting = False, currentPage = 0,
      zoom = dyadic 3 1, edits = [], toasts = [], toastId = 0\<rparr>"

definition example_span :: TextSpan where
  "example_span =
     \<lparr>span_text = ''Hello World'', span_font = ''Roboto-Regular'', span_size = number_of_int 11,
      span_color = ''#000000'', span_rect = \<lparr>x0 = number_of_int 100, y0 = number_of_int 700,
                   x1 = number_of_int 550, y1 = number_of_int 718\<rparr>,
      span_flags = 0\<rparr>"


definition example_viewer :: viewer_state where
  "example_viewer = \<lparr>pageText = None, loadedFonts = {}, editingSpan = None, editValue = []\<rparr>"

definition example_file :: File where
  "example_file = \<lparr>file_name = ''other.pdf'', file_bytes = ''%PDF-1.7''\<rparr>"

definition respond_ok :: "'b \<Rightarrow> 'b fetch" where
  "respond_ok b url init = Inr \<lparr>ok = True, status = 200, body_text = None, body = Inr b\<rparr>"

definition respond_500 :: "'b \<Rightarrow> 'b fetch" where
  "respond_500 b url init = Inr \<lparr>ok = False, status = 500, body_text = Some ''boom'', body = Inr b\<rparr>"

definition no_response :: "'b fetch" where
  "no_response url init = Inl (Exn (Some ''Failed to fetch''))"

text \<open>A server whose answer is ok, with a body that cannot be read to its end.\<close>

definition broken_body :: "'b fetch" where
  "broken_body url init =
     Inr \<lparr>ok = True, status = 200, body_text = None, body = Inl (Exn (Some ''network error''))\<rparr>"

text \<open>A server that answers one request, with given bytes, and rejects every other.\<close>

definition only_request :: "string \<Rightarrow> request_init \<Rightarrow> 'b \<Rightarrow> 'b fetch" where
  "only_request expected_url expected_init b url init =
     (if url = expected_url \<and> init = Some expected_init
      then Inr \<lparr>ok = True, status = 200, body_text = None, body = Inr b\<rparr>
      else Inl (Exn (Some ''unexpected request'')))"

text \<open>Font loading in which the font \<open>Broken\<close> fails, and an effect that is never cancelled.\<close>

definition example_face_load :: "string \<Rightarrow> exn + unit" where
  "example_face_load name = (if name = ''Broken'' then Inl (Exn (Some ''load failed'')) else Inr ())"

definition never_cancelled :: "string \<Rightarrow> bool" where
  "never_cancelled name = False"

section \<open>Properties of the index search\<close>

lemma findIndex_lower: "- 1 \<le> findIndex P xs"
  by (induction xs) (auto simp: Let_def)

lemma findIndex_upper: "findIndex P xs < int (length xs)"
  by (induction xs) (auto simp: Let_def)

lemma findIndex_none: "findIndex P xs < 0 \<longleftrightarrow> (\<forall>x \<in> set xs. \<not> P x)"
  using findIndex_lower [of P] by (induction xs) (auto simp: Let_def)

lemma findIndex_hit: "0 \<le> findIndex P xs \<Longrightarrow> P (xs ! nat (findIndex P xs))"
proof (induction xs)
  case Nil
  then show ?case by simp
next
  case (Cons x xs)
  show ?case
  proof (cases "P x")
    case True
    then show ?thesis by simp
  next
    case False
    with Cons.prems have nonneg: "0 \<le> findIndex P xs"
      by (auto simp: Let_def split: if_splits)
    then have "nat (findIndex P xs + 1) = Suc (nat (findIndex P xs))"
      by simp
    with False nonneg Cons.IH show ?thesis
      by (simp add: Let_def)
  qed
qed

lemma findIndex_first: "0 \<le> findIndex P xs \<Longrightarrow> j < nat (findIndex P xs) \<Longrightarrow> \<not> P (xs ! j)"
proof (induction xs arbitrary: j)
  case Nil
  then show ?case by simp
next
  case (Cons x xs)
  show ?case
  proof (cases "P x")
    case True
    with Cons.prems show ?thesis by simp
  next
    case False
    with Cons.prems have nonneg: "0 \<le> findIndex P xs"
      by (auto simp: Let_def split: if_splits)
    then have idx: "nat (findIndex P (x # xs)) = Suc (nat (findIndex P xs))"
      using False by (simp add: Let_def)
    show ?thesis
    proof (cases j)
      case 0
      with False show ?thesis by simp
    next
      case (Suc k)
      with Cons.prems idx have "k < nat (findIndex P xs)" by simp
      with Cons.IH nonneg Suc show ?thesis by simp
    qed
  qed
qed

section \<open>Properties of the comparison\<close>

lemma dabs_round: "dabs (round_to_double s m e) = dabs (round_to_double s' m e)"
  by (simp add: round_to_double_def split: option.splits)

lemma dabs_dsub_commute: "dabs (dsub a b) = dabs (dsub b a)"
proof (cases a)
  case (Finite sa ma ea)
  note a = Finite
  show ?thesis
  proof (cases b)
    case (Finite sb mb eb)
    let ?e = "min ea eb"
    let ?d = "signed sa (ma * 2 ^ nat (ea - ?e)) - signed sb (mb * 2 ^ nat (eb - ?e))"
    let ?d' = "signed sb (mb * 2 ^ nat (eb - ?e)) - signed sa (ma * 2 ^ nat (ea - ?e))"
    have mag: "nat \<bar>?d'\<bar> = nat \<bar>?d\<bar>" by (simp add: abs_minus_commute)
    have zero: "?d' = 0 \<longleftrightarrow> ?d = 0" by auto
    have "dabs (dsub a b) =
        (if ?d = 0 then Finite False 0 0 else dabs (round_to_double (?d < 0) (nat \<bar>?d\<bar>) ?e))"
      by (simp add: a Finite Let_def)
    moreover have "dabs (dsub b a) =
        (if ?d' = 0 then Finite False 0 0 else dabs (round_to_double (?d' < 0) (nat \<bar>?d'\<bar>) ?e))"
      by (simp add: a Finite Let_def min.commute)
    ultimately show ?thesis
      unfolding mag zero using dabs_round [of "?d < 0" "nat \<bar>?d\<bar>" ?e "?d' < 0"] by simp
  next
    case (Infinity sb)
    with a show ?thesis by simp
  next
    case NaN
    with a show ?thesis by simp
  qed
next
  case (Infinity sa)
  then show ?thesis by (cases b) auto
next
  case NaN
  then show ?thesis by (cases b) auto
qed

lemma sameRect_sym: "sameRect a b \<longleftrightarrow> sameRect b a"
  by (auto simp: sameRect_def dabs_dsub_commute [of "x0 (rect a)"] dabs_dsub_commute [of "y0 (rect a)"])

lemmas number_eval = number_of_int_def dyadic_def round_to_double_def round_magnitude_def
  signed_def Let_def bit_length.simps

section \<open>Properties of adding an edit\<close>

lemma handleAddEdit_append:
  "\<forall>e \<in> set prev. \<not> sameRect edit e \<Longrightarrow> handleAddEdit prev edit = prev @ [edit]"
  using findIndex_none [of "sameRect edit" prev] by (simp add: handleAddEdit_def Let_def)

lemma handleAddEdit_replace:
  assumes "\<exists>e \<in> set prev. sameRect edit e"
  shows "0 \<le> findIndex (sameRect edit) prev"
    and "nat (findIndex (sameRect edit) prev) < length prev"
    and "sameRect edit (prev ! nat (findIndex (sameRect edit) prev))"
    and "handleAddEdit prev edit = prev[nat (findIndex (sameRect edit) prev) := edit]"
proof -
  show nonneg: "0 \<le> findIndex (sameRect edit) prev"
    using assms findIndex_none [of "sameRect edit" prev] by auto
  show "nat (findIndex (sameRect edit) prev) < length prev"
    using nonneg findIndex_upper [of "sameRect edit" prev] by simp
  show "sameRect edit (prev ! nat (findIndex (sameRect edit) prev))"
    using nonneg by (rule findIndex_hit)
  show "handleAddEdit prev edit = prev[nat (findIndex (sameRect edit) prev) := edit]"
    using nonneg by (simp add: handleAddEdit_def Let_def)
qed

lemma keyed_nth:
  "keyed es \<longleftrightarrow> (\<forall>i < length es. \<forall>j < length es. i \<noteq> j \<longrightarrow> \<not> sameRect (es ! i) (es ! j))"
proof (induction es)
  case Nil
  then show ?case by simp
next
  case (Cons e es)
  show ?case
  proof
    assume k: "keyed (e # es)"
    then have head: "\<forall>x \<in> set es. \<not> sameRect e x" and tail: "keyed es"
      by (simp_all add: list_all_iff)
    show "\<forall>i < length (e # es). \<forall>j < length (e # es). i \<noteq> j \<longrightarrow> \<not> sameRect ((e # es) ! i) ((e # es) ! j)"
    proof (intro allI impI)
      fix i j
      assume i: "i < length (e # es)" and j: "j < length (e # es)" and ne: "i \<noteq> j"
      show "\<not> sameRect ((e # es) ! i) ((e # es) ! j)"
      proof (cases i)
        case 0
        with ne obtain j' where "j = Suc j'" by (cases j) auto
        with 0 j head show ?thesis by simp
      next
        case (Suc i')
        show ?thesis
        proof (cases j)
          case 0
          with Suc i head have "\<not> sameRect e (es ! i')" by simp
          with 0 Suc show ?thesis using sameRect_sym by simp
        next
          case (Suc j')
          with \<open>i = Suc i'\<close> i j ne tail Cons.IH show ?thesis by simp
        qed
      qed
    qed
  next
    assume r: "\<forall>i < length (e # es). \<forall>j < length (e # es). i \<noteq> j \<longrightarrow> \<not> sameRect ((e # es) ! i) ((e # es) ! j)"
    have head: "\<forall>x \<in> set es. \<not> sameRect e x"
    proof
      fix x assume "x \<in> set es"
      then obtain n where n: "n < length es" "es ! n = x" by (auto simp: in_set_conv_nth)
      from r [rule_format, of 0 "Suc n"] n show "\<not> sameRect e x" by simp
    qed
    have "\<forall>i < length es. \<forall>j < length es. i \<noteq> j \<longrightarrow> \<not> sameRect (es ! i) (es ! j)"
    proof (intro allI impI)
      fix i j assume "i < length es" "j < length es" "i \<noteq> j"
      with r [rule_format, of "Suc i" "Suc j"] show "\<not> sameRect (es ! i) (es ! j)" by simp
    qed
    with Cons.IH have "keyed es" by simp
    with head show "keyed (e # es)" by (simp add: list_all_iff)
  qed
qed

lemma transitiveOn_iff:
  "transitiveOn es \<longleftrightarrow>
     (\<forall>a \<in> set es. \<forall>b \<in> set es. \<forall>c \<in> set es. sameRect a b \<and> sameRect b c \<longrightarrow> sameRect a c)"
  by (simp add: transitiveOn_def list_all_iff)

lemma handleAddEdit_subset:
  "set prev \<subseteq> S \<Longrightarrow> edit \<in> S \<Longrightarrow> set (handleAddEdit prev edit) \<subseteq> S"
  using set_update_subset_insert [of prev "nat (findIndex (sameRect edit) prev)" edit]
  by (auto simp: handleAddEdit_def Let_def)

lemma handleAddEdit_keyed:
  assumes k: "keyed prev" and sub: "set prev \<subseteq> set S" and mem: "edit \<in> set S"
    and tr: "transitiveOn S"
  shows "keyed (handleAddEdit prev edit)"
proof (cases "\<exists>e \<in> set prev. sameRect edit e")
  case False
  then have none: "\<forall>e \<in> set prev. \<not> sameRect edit e" by simp
  then have res: "handleAddEdit prev edit = prev @ [edit]" by (rule handleAddEdit_append)
  show ?thesis
    unfolding res keyed_nth
  proof (intro allI impI)
    fix i j
    assume i: "i < length (prev @ [edit])" and j: "j < length (prev @ [edit])" and ne: "i \<noteq> j"
    show "\<not> sameRect ((prev @ [edit]) ! i) ((prev @ [edit]) ! j)"
    proof (cases "i < length prev")
      case True
      note ilt = True
      show ?thesis
      proof (cases "j < length prev")
        case True
        with ilt ne k show ?thesis by (simp add: keyed_nth nth_append)
      next
        case False
        with j have "j = length prev" by simp
        moreover from ilt none have "\<not> sameRect edit (prev ! i)" by simp
        ultimately show ?thesis using ilt sameRect_sym by (simp add: nth_append)
      qed
    next
      case False
      with i have ieq: "i = length prev" by simp
      with j ne have jlt: "j < length prev" by simp
      with none have "\<not> sameRect edit (prev ! j)" by simp
      with ieq jlt show ?thesis by (simp add: nth_append)
    qed
  qed
next
  case True
  define n where "n = nat (findIndex (sameRect edit) prev)"
  from handleAddEdit_replace [OF True]
  have n: "n < length prev" and hit: "sameRect edit (prev ! n)"
    and res: "handleAddEdit prev edit = prev[n := edit]"
    by (simp_all add: n_def)
  from tr have trans: "\<And>a b c. a \<in> set S \<Longrightarrow> b \<in> set S \<Longrightarrow> c \<in> set S \<Longrightarrow>
      sameRect a b \<Longrightarrow> sameRect b c \<Longrightarrow> sameRect a c"
    unfolding transitiveOn_iff by blast
  have other: "\<not> sameRect edit (prev ! m)" if m: "m < length prev" and mn: "m \<noteq> n" for m
  proof
    assume near: "sameRect edit (prev ! m)"
    have "prev ! n \<in> set S" "prev ! m \<in> set S" using n m sub by auto
    moreover have "sameRect (prev ! n) edit" using hit sameRect_sym by simp
    ultimately have "sameRect (prev ! n) (prev ! m)" using near mem trans by blast
    with k n m mn show False by (simp add: keyed_nth)
  qed
  show ?thesis
    unfolding res keyed_nth
  proof (intro allI impI)
    fix i j
    assume i: "i < length (prev[n := edit])" and j: "j < length (prev[n := edit])" and ne: "i \<noteq> j"
    show "\<not> sameRect (prev[n := edit] ! i) (prev[n := edit] ! j)"
    proof (cases "i = n")
      case True
      with ne i j other [of j] show ?thesis by simp
    next
      case False
      note inn = False
      show ?thesis
      proof (cases "j = n")
        case True
        with inn i j other [of i] sameRect_sym show ?thesis by simp
      next
        case False
        with inn i j ne k show ?thesis by (simp add: keyed_nth)
      qed
    qed
  qed
qed

lemma addEdits_keyed:
  "keyed prev \<Longrightarrow> set prev \<subseteq> set S \<Longrightarrow> set submitted \<subseteq> set S \<Longrightarrow> transitiveOn S \<Longrightarrow>
     keyed (addEdits prev submitted) \<and> set (addEdits prev submitted) \<subseteq> set S"
proof (induction submitted arbitrary: prev)
  case Nil
  then show ?case by (simp add: addEdits_def)
next
  case (Cons e es)
  from Cons.prems have "keyed (handleAddEdit prev e)"
    by (intro handleAddEdit_keyed [of prev S e]) auto
  moreover from Cons.prems have "set (handleAddEdit prev e) \<subseteq> set S"
    by (intro handleAddEdit_subset) auto
  ultimately have "keyed (addEdits (handleAddEdit prev e) es) \<and> set (addEdits (handleAddEdit prev e) es) \<subseteq> set S"
    using Cons.prems by (intro Cons.IH) auto
  then show ?case by (simp add: addEdits_def)
qed


lemmas example_defs = edit_A_def edit_A'_def edit_B_def edit_N_def edit_M_def edit_one_def
  edit_tiny_def edit_half_def example_edit_def

text \<open>The comparison on the concrete edits.\<close>

lemma sameRect_examples:
  "sameRect edit_A' edit_A" "\<not> sameRect edit_B edit_A" "\<not> sameRect edit_A' edit_B"
  "\<not> sameRect edit_N edit_A" "sameRect edit_M edit_A" "sameRect edit_M edit_N"
  "\<not> sameRect edit_A edit_B" "sameRect edit_N edit_M" "sameRect edit_A edit_A'"
  "\<not> sameRect edit_B edit_A'" "sameRect edit_A edit_A" "sameRect edit_B edit_B"
  "sameRect edit_A' edit_A'"
  by (simp_all add: sameRect_def example_defs number_eval)

lemma sameRect_rounded:
  "\<not> sameRect edit_tiny edit_one" "\<not> sameRect edit_one edit_tiny"
  "sameRect edit_tiny edit_half" "sameRect edit_half edit_tiny"
  "sameRect edit_one edit_one" "sameRect edit_tiny edit_tiny"
  "dsub (number_of_int 1) (dyadic 1 60) = Finite False (2 ^ 53) (- 53)"
  by (simp_all add: sameRect_def example_defs number_eval)

section \<open>Replace, not duplicate\<close>



section \<open>The edit list as a mapping\<close>

text \<open>
  Claim C2 says that no run of additions from the empty list ever leaves two distinct
  edits on one page whose \<open>x0\<close> and \<open>y0\<close> are each within one point of one another. The
  comparison is by absolute difference and is not transitive: after edits at \<open>x0 = 100\<close>
  and \<open>x0 = 101.5\<close>, an edit at \<open>x0 = 100.75\<close> matches the first and is written over it,
  and then lies within one point of the second. All differences here are exact in
  doubles.
\<close>

theorem addEdits_not_keyed_counterexample:
  "addEdits [] [edit_A, edit_N, edit_M] = [edit_M, edit_N]
   \<and> edit_M \<noteq> edit_N \<and> sameRect edit_M edit_N \<and> \<not> keyed (addEdits [] [edit_A, edit_N, edit_M])"
proof -
  have run: "addEdits [] [edit_A, edit_N, edit_M] = [edit_M, edit_N]"
    using sameRect_examples by (simp add: addEdits_def handleAddEdit_def)
  have "edit_M \<noteq> edit_N" by (simp add: example_defs)
  with run sameRect_examples show ?thesis by simp
qed

text \<open>
  Claim C2, amended. For every run of additions from the empty list in which the matching
  relation \<open>sameRect\<close> (the comparison of the source, on doubles) is transitive on the
  submitted edits, no two positions of the resulting list hold edits on the same page
  whose \<open>x0\<close> and \<open>y0\<close> each match by that comparison.
\<close>

theorem addEdits_keyed_when_transitive:
  assumes "transitiveOn submitted"
    and "i < length (addEdits [] submitted)" and "j < length (addEdits [] submitted)" and "i \<noteq> j"
  shows "\<not> sameRect (addEdits [] submitted ! i) (addEdits [] submitted ! j)"
proof -
  have "keyed (addEdits [] submitted)"
    using addEdits_keyed [of "[]" submitted submitted] assms(1) by simp
  with assms(2-4) show ?thesis by (simp add: keyed_nth)
qed

theorem addEdits_keyed_when_transitive_witness:
  "transitiveOn [edit_A, edit_B, edit_A']
   \<and> addEdits [] [edit_A, edit_B, edit_A'] = [edit_A', edit_B]
   \<and> \<not> sameRect (addEdits [] [edit_A, edit_B, edit_A'] ! 0) (addEdits [] [edit_A, edit_B, edit_A'] ! 1)
   \<and> transitiveOn [edit_one, edit_tiny]
   \<and> addEdits [] [edit_one, edit_tiny] = [edit_one, edit_tiny]
   \<and> \<not> sameRect (addEdits [] [edit_one, edit_tiny] ! 0) (addEdits [] [edit_one, edit_tiny] ! 1)"
proof -
  have tr: "transitiveOn [edit_A, edit_B, edit_A']"
    using sameRect_examples by (simp add: transitiveOn_def)
  have run: "addEdits [] [edit_A, edit_B, edit_A'] = [edit_A', edit_B]"
    using sameRect_examples by (simp add: addEdits_def handleAddEdit_def)
  then have len: "0 < length (addEdits [] [edit_A, edit_B, edit_A'])"
      "1 < length (addEdits [] [edit_A, edit_B, edit_A'])"
    by simp_all
  have tr': "transitiveOn [edit_one, edit_tiny]"
    using sameRect_rounded by (simp add: transitiveOn_def)
  have run': "addEdits [] [edit_one, edit_tiny] = [edit_one, edit_tiny]"
    using sameRect_rounded by (simp add: addEdits_def handleAddEdit_def)
  then have len': "0 < length (addEdits [] [edit_one, edit_tiny])"
      "1 < length (addEdits [] [edit_one, edit_tiny])"
    by simp_all
  show ?thesis
    using addEdits_keyed_when_transitive [OF tr len] addEdits_keyed_when_transitive [OF tr' len']
      tr run tr' run'
    by simp
qed

section \<open>Order under replacement\<close>

text \<open>
  Claim C6 says that the order of the list is the order in which the edits were last
  written into it. A replacement is written at the position of the edit it replaces:
  after \<open>edit_A\<close>, \<open>edit_B\<close> and then \<open>edit_A'\<close>, which replaces \<open>edit_A\<close>, the edit written
  last stands first.
\<close>

theorem handleAddEdit_order_counterexample:
  "sameRect edit_A' edit_A
   \<and> addEdits [] [edit_A, edit_B, edit_A'] = [edit_A', edit_B]
   \<and> lastSubmitted [edit_A, edit_B, edit_A'] edit_A' = 3
   \<and> lastSubmitted [edit_A, edit_B, edit_A'] edit_B = 2
   \<and> \<not> inLastSubmittedOrder [edit_A, edit_B, edit_A'] (addEdits [] [edit_A, edit_B, edit_A'])"
proof -
  have run: "addEdits [] [edit_A, edit_B, edit_A'] = [edit_A', edit_B]"
    using sameRect_examples by (simp add: addEdits_def handleAddEdit_def)
  have ne: "edit_A \<noteq> edit_A'" "edit_B \<noteq> edit_A'" "edit_A \<noteq> edit_B"
    by (simp_all add: example_defs)
  have l3: "lastSubmitted [edit_A, edit_B, edit_A'] edit_A' = 3"
    and l2: "lastSubmitted [edit_A, edit_B, edit_A'] edit_B = 2"
    using ne by (simp_all add: Let_def)
  with run sameRect_examples show ?thesis
    by (simp add: inLastSubmittedOrder_def)
qed

text \<open>
  Claim C6, amended. When an incoming edit replaces an existing edit that it matches (by
  the comparison of the source, on doubles), it takes the position of the first edit it
  matches, the length is unchanged, and every other edit is unchanged and keeps its
  position; a replacement does not move the edit to the end of the list.
\<close>

theorem handleAddEdit_replace_in_place:
  assumes "\<exists>e \<in> set prev. sameRect edit e"
  shows "\<exists>idx < length prev.
           sameRect edit (prev ! idx)
           \<and> (\<forall>j < idx. \<not> sameRect edit (prev ! j))
           \<and> length (handleAddEdit prev edit) = length prev
           \<and> handleAddEdit prev edit ! idx = edit
           \<and> (\<forall>j < length prev. j \<noteq> idx \<longrightarrow> handleAddEdit prev edit ! j = prev ! j)"
proof -
  define n where "n = nat (findIndex (sameRect edit) prev)"
  from handleAddEdit_replace [OF assms]
  have nonneg: "0 \<le> findIndex (sameRect edit) prev"
    and n: "n < length prev" and hit: "sameRect edit (prev ! n)"
    and res: "handleAddEdit prev edit = prev[n := edit]"
    by (simp_all add: n_def)
  have first: "\<forall>j < n. \<not> sameRect edit (prev ! j)"
    using findIndex_first [OF nonneg] by (simp add: n_def)
  from n hit first res show ?thesis
    by (intro exI [of _ n]) simp
qed

theorem handleAddEdit_replace_in_place_witness:
  "(\<exists>e \<in> set [edit_B, edit_A]. sameRect edit_A' e)
   \<and> handleAddEdit [edit_B, edit_A] edit_A' = [edit_B, edit_A']
   \<and> (\<exists>idx < length [edit_B, edit_A].
         handleAddEdit [edit_B, edit_A] edit_A' ! idx = edit_A'
         \<and> (\<forall>j < length [edit_B, edit_A]. j \<noteq> idx \<longrightarrow> handleAddEdit [edit_B, edit_A] edit_A' ! j = [edit_B, edit_A] ! j))
   \<and> (\<exists>e \<in> set [edit_one, edit_half]. sameRect edit_tiny e)
   \<and> handleAddEdit [edit_one, edit_half] edit_tiny = [edit_one, edit_tiny]
   \<and> (\<exists>idx < length [edit_one, edit_half].
         sameRect edit_tiny ([edit_one, edit_half] ! idx)
         \<and> (\<forall>j < idx. \<not> sameRect edit_tiny ([edit_one, edit_half] ! j))
         \<and> handleAddEdit [edit_one, edit_half] edit_tiny ! idx = edit_tiny)"
proof -
  have m: "\<exists>e \<in> set [edit_B, edit_A]. sameRect edit_A' e"
    using sameRect_examples by simp
  have run: "handleAddEdit [edit_B, edit_A] edit_A' = [edit_B, edit_A']"
    using sameRect_examples by (simp add: handleAddEdit_def)
  have m': "\<exists>e \<in> set [edit_one, edit_half]. sameRect edit_tiny e"
    using sameRect_rounded by simp
  have run': "handleAddEdit [edit_one, edit_half] edit_tiny = [edit_one, edit_tiny]"
    using sameRect_rounded by (simp add: handleAddEdit_def)
  from handleAddEdit_replace_in_place [OF m] handleAddEdit_replace_in_place [OF m'] m run m' run'
  show ?thesis by blast
qed

section \<open>Export\<close>

text \<open>
  Claim C3 says that an export with no edits returns the original document instead of
  producing no output. \<open>handleExport\<close> returns at once when the edit list is empty: with a
  loaded document, no edits and a server that would answer with the original bytes,
  nothing is downloaded and the state is unchanged.
\<close>

theorem handleExport_no_edits_counterexample:
  "docInfo example_state = Some example_doc
   \<and> length (edits example_state) = 0
   \<and> exportDocument [] (respond_ok ''%PDF-original'') (doc_id example_doc) [] = Inr ''%PDF-original''
   \<and> handleExport [] (respond_ok ''%PDF-original'') example_state = (example_state, None)"
  by (simp add: handleExport_def example_state_def exportDocument_def respond_ok_def)

text \<open>
  Claim C3, amended. For every loaded document, requesting an export with an edit set of
  size zero does nothing in the client: \<open>handleExport\<close> leaves the state unchanged and
  triggers no download, whatever the server would answer, and the export button of the
  toolbar is disabled. A download happens only when a document is loaded, the edit list is
  not empty and \<open>exportDocument\<close> returns bytes; it then carries exactly those bytes.
\<close>

theorem handleExport_no_edits:
  "(length (edits st) = 0 \<longrightarrow>
      handleExport BASE fetch st = (st, None)
      \<and> Toolbar_export_disabled (length (edits st)) (exporting st))
   \<and> (snd (handleExport BASE fetch st) \<noteq> None \<longrightarrow>
        (\<exists>info b. docInfo st = Some info \<and> edits st \<noteq> []
           \<and> exportDocument BASE fetch (doc_id info) (edits st) = Inr b
           \<and> snd (handleExport BASE fetch st) = Some (''edited_'' @ filename info, b)))"
  by (auto simp: handleExport_def Toolbar_export_disabled_def Let_def split: option.splits sum.splits)

theorem handleExport_no_edits_witness:
  "length (edits example_state) = 0
   \<and> handleExport [] no_response example_state = (example_state, None)
   \<and> Toolbar_export_disabled 0 False
   \<and> snd (handleExport [] (respond_ok ''%PDF-edited'') (example_state\<lparr>edits := [edit_A]\<rparr>)) \<noteq> None
   \<and> snd (handleExport [] (respond_ok ''%PDF-edited'') (example_state\<lparr>edits := [edit_A]\<rparr>))
       = Some (''edited_sample.pdf'', ''%PDF-edited'')"
proof -
  have none: "length (edits example_state) = 0" "exporting example_state = False"
    by (simp_all add: example_state_def)
  have some: "snd (handleExport [] (respond_ok ''%PDF-edited'') (example_state\<lparr>edits := [edit_A]\<rparr>))
       = Some (''edited_sample.pdf'', ''%PDF-edited'')"
    by (simp add: handleExport_def example_state_def example_doc_def exportDocument_def respond_ok_def)
  show ?thesis
    using handleExport_no_edits [of example_state "[]" no_response]
      handleExport_no_edits [of "example_state\<lparr>edits := [edit_A]\<rparr>" "[]" "respond_ok ''%PDF-edited''"]
      none some
    by simp
qed

text \<open>
  Claim C4 says that every call of \<open>exportDocument\<close> returns the bytes exactly when the
  response is ok, and otherwise throws an Error that includes the status of the response.
  A response that is ok but whose body cannot be read to its end makes the call throw the
  rejection of \<open>res.blob()\<close>, which names no status; and when \<open>fetch\<close> itself rejects there
  is no response at all, and its rejection is what the call throws.
\<close>

theorem exportDocument_status_counterexample:
  "(broken_body :: blob fetch) (export_url [] ''doc-1'') (Some (export_init (export_payload [edit_A])))
     = Inr \<lparr>ok = True, status = 200, body_text = None, body = Inl (Exn (Some ''network error''))\<rparr>
   \<and> exportDocument [] broken_body ''doc-1'' [edit_A] = Inl (Exn (Some ''network error''))
   \<and> \<not> sublist (show_nat 200) ''network error''
   \<and> exportDocument [] no_response ''doc-1'' [edit_A] = Inl (Exn (Some ''Failed to fetch''))"
proof -
  have s: "show_nat 200 = ''200''" by (simp add: show_nat.simps digit_char_def)
  have "\<not> sublist ''200'' ''network error''" by (simp add: sublist_Cons_right)
  with s show ?thesis
    by (simp add: exportDocument_def broken_body_def no_response_def)
qed

text \<open>
  Claim C4, amended. \<open>exportDocument\<close> returns bytes exactly when \<open>fetch\<close> resolves to a
  response that is ok and whose body can be read, and the bytes are then the whole body.
  In every other case it throws and returns no bytes: for a response that is not ok, an
  Error whose message contains the status of the response; for an ok response whose body
  cannot be read, the rejection of \<open>res.blob()\<close>; without a response, the rejection of
  \<open>fetch\<close>.
\<close>

theorem exportDocument_all_or_nothing:
  "(\<forall>b. exportDocument BASE fetch docId es = Inr b \<longleftrightarrow>
        (\<exists>res. fetch (export_url BASE docId) (Some (export_init (export_payload es))) = Inr res
           \<and> ok res \<and> body res = Inr b))
   \<and> (\<forall>res. fetch (export_url BASE docId) (Some (export_init (export_payload es))) = Inr res
          \<and> \<not> ok res \<longrightarrow>
        (\<exists>msg. exportDocument BASE fetch docId es = Inl (Exn (Some msg))
               \<and> sublist (show_nat (status res)) msg))
   \<and> (\<forall>res failed. fetch (export_url BASE docId) (Some (export_init (export_payload es))) = Inr res
          \<and> ok res \<and> body res = Inl failed \<longrightarrow>
        exportDocument BASE fetch docId es = Inl failed)
   \<and> (\<forall>rejected. fetch (export_url BASE docId) (Some (export_init (export_payload es))) = Inl rejected \<longrightarrow>
        exportDocument BASE fetch docId es = Inl rejected)"
proof (intro conjI allI)
  fix b
  show "exportDocument BASE fetch docId es = Inr b \<longleftrightarrow>
        (\<exists>res. fetch (export_url BASE docId) (Some (export_init (export_payload es))) = Inr res
           \<and> ok res \<and> body res = Inr b)"
    by (cases "fetch (export_url BASE docId) (Some (export_init (export_payload es)))")
       (auto simp: exportDocument_def)
next
  fix res
  show "fetch (export_url BASE docId) (Some (export_init (export_payload es))) = Inr res
          \<and> \<not> ok res \<longrightarrow>
        (\<exists>msg. exportDocument BASE fetch docId es = Inl (Exn (Some msg))
               \<and> sublist (show_nat (status res)) msg)"
  proof
    assume r: "fetch (export_url BASE docId) (Some (export_init (export_payload es))) = Inr res
          \<and> \<not> ok res"
    then have "exportDocument BASE fetch docId es
        = Inl (Exn (Some (''Export failed ('' @ show_nat (status res) @ ''): '' @ text_or_empty res)))"
      by (simp add: exportDocument_def)
    moreover have "sublist (show_nat (status res))
        (''Export failed ('' @ show_nat (status res) @ ''): '' @ text_or_empty res)"
      by (rule sublist_appendI)
    ultimately show "\<exists>msg. exportDocument BASE fetch docId es = Inl (Exn (Some msg))
               \<and> sublist (show_nat (status res)) msg"
      by blast
  qed
next
  fix res failed
  show "fetch (export_url BASE docId) (Some (export_init (export_payload es))) = Inr res
          \<and> ok res \<and> body res = Inl failed \<longrightarrow>
        exportDocument BASE fetch docId es = Inl failed"
    by (simp add: exportDocument_def)
next
  fix rejected
  show "fetch (export_url BASE docId) (Some (export_init (export_payload es))) = Inl rejected \<longrightarrow>
        exportDocument BASE fetch docId es = Inl rejected"
    by (simp add: exportDocument_def)
qed

theorem exportDocument_all_or_nothing_witness:
  "exportDocument [] (respond_ok ''%PDF-edited'') ''doc-1'' [edit_A] = Inr ''%PDF-edited''
   \<and> exportDocument [] (respond_500 []) ''doc-1'' [edit_A] = Inl (Exn (Some ''Export failed (500): boom''))
   \<and> sublist ''500'' ''Export failed (500): boom''
   \<and> exportDocument [] broken_body ''doc-1'' [edit_A] = Inl (Exn (Some ''network error''))
   \<and> exportDocument [] no_response ''doc-1'' [edit_A] = Inl (Exn (Some ''Failed to fetch''))"
proof -
  have s: "show_nat 500 = ''500''" by (simp add: show_nat.simps digit_char_def)
  have f: "exportDocument [] (respond_500 []) ''doc-1'' [edit_A] = Inl (Exn (Some ''Export failed (500): boom''))"
    by (simp add: exportDocument_def respond_500_def s text_or_empty_def)
  show ?thesis
    using exportDocument_all_or_nothing [of "[]" "respond_ok ''%PDF-edited''" "''doc-1''" "[edit_A]"]
      exportDocument_all_or_nothing [of "[]" "respond_500 []" "''doc-1''" "[edit_A]"]
      exportDocument_all_or_nothing [of "[]" broken_body "''doc-1''" "[edit_A]"]
      exportDocument_all_or_nothing [of "[]" no_response "''doc-1''" "[edit_A]"]
      s f
    by (simp add: respond_ok_def respond_500_def no_response_def broken_body_def)
qed

lemma rest_without_key_edit:
  "rest_without_key (edit_properties e) =
     [(''page'', JNumber (number_of_int (page e))),
      (''rect'', rect_json (rect e)),
      (''original_text'', JString (original_text e)),
      (''new_text'', JString (new_text e)),
      (''font'', JString (font e)),
      (''font_size'', JNumber (font_size e)),
      (''color'', JString (color e))]"
  by (simp add: rest_without_key_def edit_properties_def)

text \<open>
  Claim C5. For every edit list the body of the export request is the payload: an object
  with the single field \<open>edits\<close>, an array with one entry for each edit, in order; each
  entry has exactly the fields \<open>page\<close>, \<open>rect\<close>, \<open>original_text\<close>, \<open>new_text\<close>, \<open>font\<close>,
  \<open>font_size\<close> and \<open>color\<close> of its edit and no field \<open>key\<close>. The payload, and with it the
  whole call of \<open>exportDocument\<close>, does not depend on the keys of the edits. That the
  payload is what \<open>fetch\<close> receives is stated with a server that answers only the POST
  request to the export address with this payload as its JSON body: \<open>exportDocument\<close>
  gets its answer.
\<close>

theorem export_payload_shape:
  "(\<exists>entries. export_payload es = JObject [(''edits'', JArray (map JObject entries))]
       \<and> length entries = length es
       \<and> (\<forall>i < length es.
             entries ! i =
               [(''page'', JNumber (number_of_int (page (es ! i)))),
                (''rect'', rect_json (rect (es ! i))),
                (''original_text'', JString (original_text (es ! i))),
                (''new_text'', JString (new_text (es ! i))),
                (''font'', JString (font (es ! i))),
                (''font_size'', JNumber (font_size (es ! i))),
                (''color'', JString (color (es ! i)))]
             \<and> map fst (entries ! i) =
                 [''page'', ''rect'', ''original_text'', ''new_text'', ''font'', ''font_size'', ''color'']
             \<and> ''key'' \<notin> fst ` set (entries ! i)))
   \<and> exportDocument BASE
        (only_request (BASE @ ''/api/documents/'' @ docId @ ''/export'')
           \<lparr>http_method = ''POST'', headers = [(''Content-Type'', ''application/json'')],
            req_body = JsonText (export_payload es)\<rparr> bytes)
        docId es = Inr bytes
   \<and> export_payload (map (\<lambda>e. e\<lparr>key := rekey e\<rparr>) es) = export_payload es
   \<and> exportDocument BASE fetch docId (map (\<lambda>e. e\<lparr>key := rekey e\<rparr>) es)
       = exportDocument BASE fetch docId es"
proof (intro conjI)
  show "\<exists>entries. export_payload es = JObject [(''edits'', JArray (map JObject entries))]
       \<and> length entries = length es
       \<and> (\<forall>i < length es.
             entries ! i =
               [(''page'', JNumber (number_of_int (page (es ! i)))),
                (''rect'', rect_json (rect (es ! i))),
                (''original_text'', JString (original_text (es ! i))),
                (''new_text'', JString (new_text (es ! i))),
                (''font'', JString (font (es ! i))),
                (''font_size'', JNumber (font_size (es ! i))),
                (''color'', JString (color (es ! i)))]
             \<and> map fst (entries ! i) =
                 [''page'', ''rect'', ''original_text'', ''new_text'', ''font'', ''font_size'', ''color'']
             \<and> ''key'' \<notin> fst ` set (entries ! i))"
    by (intro exI [of _ "map (\<lambda>e. rest_without_key (edit_properties e)) es"])
       (simp add: export_payload_def rest_without_key_edit)
  show "exportDocument BASE
        (only_request (BASE @ ''/api/documents/'' @ docId @ ''/export'')
           \<lparr>http_method = ''POST'', headers = [(''Content-Type'', ''application/json'')],
            req_body = JsonText (export_payload es)\<rparr> bytes)
        docId es = Inr bytes"
    by (simp add: exportDocument_def only_request_def export_url_def export_init_def)
  have same: "rest_without_key (edit_properties (e\<lparr>key := k\<rparr>)) = rest_without_key (edit_properties e)" for e k
    by (simp add: rest_without_key_edit)
  then show indep: "export_payload (map (\<lambda>e. e\<lparr>key := rekey e\<rparr>) es) = export_payload es"
    by (simp add: export_payload_def comp_def)
  then show "exportDocument BASE fetch docId (map (\<lambda>e. e\<lparr>key := rekey e\<rparr>) es)
       = exportDocument BASE fetch docId es"
    by (simp add: exportDocument_def)
qed

theorem export_payload_shape_witness:
  "(0::nat) < length [edit_A]
   \<and> export_payload [edit_A] =
      JObject [(''edits'', JArray [JObject
        [(''page'', JNumber (number_of_int 0)),
         (''rect'', JObject [(''x0'', JNumber (number_of_int 100)), (''y0'', JNumber (number_of_int 700)),
                             (''x1'', JNumber (number_of_int 550)), (''y1'', JNumber (number_of_int 718))]),
         (''original_text'', JString ''Hello World''),
         (''new_text'', JString ''Bonjour Monde''),
         (''font'', JString ''Roboto-Regular''),
         (''font_size'', JNumber (number_of_int 11)),
         (''color'', JString ''#000000'')]])]
   \<and> exportDocument []
        (only_request ''/api/documents/doc-1/export''
           \<lparr>http_method = ''POST'', headers = [(''Content-Type'', ''application/json'')],
            req_body = JsonText (export_payload [edit_A])\<rparr> ''%PDF-edited'')
        ''doc-1'' [edit_A] = Inr ''%PDF-edited''
   \<and> export_payload (map (\<lambda>e. e\<lparr>key := ''other''\<rparr>) [edit_A]) = export_payload [edit_A]"
proof -
  have shape: "export_payload [edit_A] =
      JObject [(''edits'', JArray [JObject
        [(''page'', JNumber (number_of_int 0)),
         (''rect'', JObject [(''x0'', JNumber (number_of_int 100)), (''y0'', JNumber (number_of_int 700)),
                             (''x1'', JNumber (number_of_int 550)), (''y1'', JNumber (number_of_int 718))]),
         (''original_text'', JString ''Hello World''),
         (''new_text'', JString ''Bonjour Monde''),
         (''font'', JString ''Roboto-Regular''),
         (''font_size'', JNumber (number_of_int 11)),
         (''color'', JString ''#000000'')]])]"
    by (simp add: export_payload_def rest_without_key_edit rect_json_def example_defs)
  show ?thesis
    using export_payload_shape [of "[edit_A]" "[]" "''doc-1''" "''%PDF-edited''" "\<lambda>e. ''other''" no_response] shape
    by simp
qed

section \<open>Matching edits to spans\<close>



section \<open>Confirming an edit\<close>

lemma trim_examples:
  "trim ''  Salut '' = ''Salut''" "trim '' Hello World'' = ''Hello World''" "trim ''   '' = []"
  by (simp_all add: trim_def is_space_def)

text \<open>
  Claim C9. Confirming an inline edit whose text, trimmed, is empty or equal to the text
  of the span hands no edit to \<open>onAddEdit\<close>: the application state, and so the accumulated
  edit list, is unchanged. An edit is emitted exactly when a span is being edited and the
  trimmed text is not empty and differs from the span's text; the emitted edit carries the
  current page, the span's rect, text, font, size and color, and the trimmed text as
  \<open>new_text\<close>, and is added by \<open>handleAddEdit\<close>. In both cases the editor is closed.
\<close>

theorem confirmEdit_guard:
  "(editingSpan v = None \<longrightarrow> confirmEdit_in_App st editCounter v = (st, editCounter, v))
   \<and> (\<forall>sp. editingSpan v = Some sp \<longrightarrow>
        (trim (editValue v) = [] \<or> trim (editValue v) = span_text sp \<longrightarrow>
           confirmEdit (currentPage st) editCounter v
             = (editCounter, v\<lparr>editingSpan := None, editValue := []\<rparr>, None)
           \<and> fst (confirmEdit_in_App st editCounter v) = st)
        \<and> (trim (editValue v) \<noteq> [] \<and> trim (editValue v) \<noteq> span_text sp \<longrightarrow>
             (\<exists>k. confirmEdit (currentPage st) editCounter v
                 = (editCounter + 1, v\<lparr>editingSpan := None, editValue := []\<rparr>,
                    Some \<lparr>key = k, page = currentPage st, rect = span_rect sp,
                          original_text = span_text sp, new_text = trim (editValue v),
                          font = span_font sp, font_size = span_size sp,
                          color = span_color sp\<rparr>)
               \<and> fst (confirmEdit_in_App st editCounter v)
                   = st\<lparr>edits := handleAddEdit (edits st)
                        \<lparr>key = k, page = currentPage st, rect = span_rect sp,
                         original_text = span_text sp, new_text = trim (editValue v),
                         font = span_font sp, font_size = span_size sp,
                         color = span_color sp\<rparr>\<rparr>)))
   \<and> ((\<exists>e. snd (snd (confirmEdit (currentPage st) editCounter v)) = Some e) \<longleftrightarrow>
        (\<exists>sp. editingSpan v = Some sp \<and> trim (editValue v) \<noteq> [] \<and> trim (editValue v) \<noteq> span_text sp))"
  by (auto simp: confirmEdit_in_App_def confirmEdit_def nextEditKey_def Let_def split: option.splits)

theorem confirmEdit_guard_witness:
  "confirmEdit_in_App (example_state\<lparr>edits := [edit_B]\<rparr>) 0
       (example_viewer\<lparr>editingSpan := Some example_span, editValue := '' Hello World''\<rparr>)
     = (example_state\<lparr>edits := [edit_B]\<rparr>, 0, example_viewer)
   \<and> fst (confirmEdit_in_App (example_state\<lparr>edits := [edit_B]\<rparr>) 0
       (example_viewer\<lparr>editingSpan := Some example_span, editValue := ''   ''\<rparr>))
     = example_state\<lparr>edits := [edit_B]\<rparr>
   \<and> edits (fst (confirmEdit_in_App (example_state\<lparr>edits := [edit_B]\<rparr>) 0
       (example_viewer\<lparr>editingSpan := Some example_span, editValue := ''  Salut ''\<rparr>)))
     = [edit_B, example_edit ''edit-1'' (number_of_int 100) ''Salut'']"
proof -
  have k: "show_nat (Suc 0) = ''1''" by (subst show_nat.simps) (simp add: digit_char_def)
  have far: "\<not> sameRect (example_edit ''edit-1'' (number_of_int 100) ''Salut'') edit_B"
    by (simp add: sameRect_def example_defs number_eval)
  have emitted: "confirmEdit 0 0 (example_viewer\<lparr>editingSpan := Some example_span, editValue := ''  Salut ''\<rparr>)
      = (1, example_viewer, Some (example_edit ''edit-1'' (number_of_int 100) ''Salut''))"
    by (simp add: confirmEdit_def nextEditKey_def k trim_examples example_viewer_def
        example_span_def example_edit_def)
  have third: "edits (fst (confirmEdit_in_App (example_state\<lparr>edits := [edit_B]\<rparr>) 0
       (example_viewer\<lparr>editingSpan := Some example_span, editValue := ''  Salut ''\<rparr>)))
     = [edit_B, example_edit ''edit-1'' (number_of_int 100) ''Salut'']"
    using far by (simp add: confirmEdit_in_App_def emitted example_state_def handleAddEdit_def)
  have first: "confirmEdit_in_App (example_state\<lparr>edits := [edit_B]\<rparr>) 0
       (example_viewer\<lparr>editingSpan := Some example_span, editValue := '' Hello World''\<rparr>)
     = (example_state\<lparr>edits := [edit_B]\<rparr>, 0, example_viewer)"
    by (simp add: confirmEdit_in_App_def confirmEdit_def trim_examples example_viewer_def
        example_span_def)
  show ?thesis
    using confirmEdit_guard [of "example_viewer\<lparr>editingSpan := Some example_span, editValue := ''   ''\<rparr>"
        "example_state\<lparr>edits := [edit_B]\<rparr>" 0]
      confirmEdit_guard [of "example_viewer\<lparr>editingSpan := Some example_span, editValue := ''  Salut ''\<rparr>"
        "example_state\<lparr>edits := [edit_B]\<rparr>" 0]
      confirmEdit_guard [of "example_viewer\<lparr>editingSpan := Some example_span, editValue := '' Hello World''\<rparr>"
        "example_state\<lparr>edits := [edit_B]\<rparr>" 0]
      confirmEdit_guard [of example_viewer "example_state\<lparr>edits := [edit_B]\<rparr>" 0]
      first third trim_examples
    by simp
qed

section \<open>Upload\<close>

lemma handleFile_success:
  "uploadDocument BASE fetch f = Inr info \<Longrightarrow>
     handleFile BASE fetch f st =
       (addToast (loaded_message info) success
          (st\<lparr>uploading := True, docInfo := Some info, currentPage := 0, edits := []\<rparr>))\<lparr>uploading := False\<rparr>"
  by (simp add: handleFile_def)

lemma handleFile_failure:
  "uploadDocument BASE fetch f = Inl err \<Longrightarrow>
     handleFile BASE fetch f st =
       (addToast (message_or err ''Erro no upload'') error (st\<lparr>uploading := True\<rparr>))\<lparr>uploading := False\<rparr>"
  by (simp add: handleFile_def)

text \<open>
  Claim C10. After every successful upload the document is the uploaded one, the edit
  list is empty and the current page is 0, so that an export requested next sends nothing
  of an earlier document. After a failed upload the document, the page and the edits
  are the previous ones.
\<close>

theorem handleFile_resets_session:
  "(\<forall>info. uploadDocument BASE fetch f = Inr info \<longrightarrow>
      docInfo (handleFile BASE fetch f st) = Some info
      \<and> edits (handleFile BASE fetch f st) = []
      \<and> currentPage (handleFile BASE fetch f st) = 0
      \<and> (\<forall>BASE' fetch'. snd (handleExport BASE' fetch' (handleFile BASE fetch f st)) = None))
   \<and> (\<forall>err. uploadDocument BASE fetch f = Inl err \<longrightarrow>
        docInfo (handleFile BASE fetch f st) = docInfo st
        \<and> currentPage (handleFile BASE fetch f st) = currentPage st
        \<and> edits (handleFile BASE fetch f st) = edits st)"
proof (intro conjI allI impI)
  fix info
  assume up: "uploadDocument BASE fetch f = Inr info"
  note r = handleFile_success [OF up, of st]
  show "docInfo (handleFile BASE fetch f st) = Some info"
    and none: "edits (handleFile BASE fetch f st) = []"
    and "currentPage (handleFile BASE fetch f st) = 0"
    by (simp_all add: r addToast_def Let_def)
  fix BASE' :: string and fetch' :: "blob fetch"
  from none show "snd (handleExport BASE' fetch' (handleFile BASE fetch f st)) = None"
    by (simp add: handleExport_def split: option.splits)
next
  fix err
  assume down: "uploadDocument BASE fetch f = Inl err"
  note r = handleFile_failure [OF down, of st]
  show "docInfo (handleFile BASE fetch f st) = docInfo st"
    and "currentPage (handleFile BASE fetch f st) = currentPage st"
    and "edits (handleFile BASE fetch f st) = edits st"
    by (simp_all add: r addToast_def Let_def)
qed

theorem handleFile_resets_session_witness:
  "uploadDocument [] (respond_ok other_doc) example_file = Inr other_doc
   \<and> docInfo (handleFile [] (respond_ok other_doc) example_file (example_state\<lparr>currentPage := 1, edits := [edit_A]\<rparr>)) = Some other_doc
   \<and> edits (handleFile [] (respond_ok other_doc) example_file (example_state\<lparr>currentPage := 1, edits := [edit_A]\<rparr>)) = []
   \<and> currentPage (handleFile [] (respond_ok other_doc) example_file (example_state\<lparr>currentPage := 1, edits := [edit_A]\<rparr>)) = 0
   \<and> uploadDocument [] (respond_500 other_doc) example_file = Inl (Exn (Some ''API 500: boom''))
   \<and> docInfo (handleFile [] (respond_500 other_doc) example_file (example_state\<lparr>currentPage := 1, edits := [edit_A]\<rparr>)) = Some example_doc
   \<and> edits (handleFile [] (respond_500 other_doc) example_file (example_state\<lparr>currentPage := 1, edits := [edit_A]\<rparr>)) = [edit_A]
   \<and> currentPage (handleFile [] (respond_500 other_doc) example_file (example_state\<lparr>currentPage := 1, edits := [edit_A]\<rparr>)) = 1"
proof -
  have s: "show_nat 500 = ''500''" by (simp add: show_nat.simps digit_char_def)
  have up: "uploadDocument [] (respond_ok other_doc) example_file = Inr other_doc"
    by (simp add: uploadDocument_def request_def respond_ok_def)
  have down: "uploadDocument [] (respond_500 other_doc) example_file = Inl (Exn (Some ''API 500: boom''))"
    by (simp add: uploadDocument_def request_def respond_500_def s text_or_empty_def)
  show ?thesis
    using handleFile_resets_session [of "[]" "respond_ok other_doc" example_file
        "example_state\<lparr>currentPage := 1, edits := [edit_A]\<rparr>"]
      handleFile_resets_session [of "[]" "respond_500 other_doc" example_file
        "example_state\<lparr>currentPage := 1, edits := [edit_A]\<rparr>"]
      up down
    by (simp add: example_state_def)
qed


section \<open>Fonts\<close>

lemma loadFonts_loop_result:
  "loadFonts_loop face_load cancelled captured names loaded =
     Inr (loaded \<union> {n \<in> set names. n \<notin> captured \<and> (\<exists>u. face_load n = Inr u) \<and> \<not> cancelled n})"
proof (induction names arbitrary: loaded)
  case Nil
  then show ?case by simp
next
  case (Cons name names)
  show ?case
  proof (cases "name \<in> captured")
    case True
    then show ?thesis by (auto simp: Cons.IH)
  next
    case False
    then show ?thesis
      by (cases "face_load name") (auto simp: Cons.IH)
  qed
qed

lemma loadFonts_result:
  "loadFonts BASE fetch face_load cancelled docId loaded =
     (case listFonts BASE fetch docId of
        Inl failed \<Rightarrow> Inr loaded
      | Inr names \<Rightarrow>
          Inr (loaded \<union> {n \<in> set names. n \<notin> loaded \<and> (\<exists>u. face_load n = Inr u) \<and> \<not> cancelled n}))"
  by (simp add: loadFonts_def loadFonts_loop_result split: sum.splits)

lemma fontFamily_suffix: "suffix ''sans-serif'' (fontFamily loaded f)"
proof (cases "f \<in> loaded")
  case True
  have "suffix ''sans-serif'' (([CHR 0x22] @ f @ [CHR 0x22] @ '', '') @ ''sans-serif'')"
    by (rule suffix_appendI) simp
  with True show ?thesis by (simp add: fontFamily_def)
next
  case False
  then show ?thesis by (simp add: fontFamily_def)
qed

text \<open>
  Claim C8. \<open>loadFonts\<close> never throws: it returns a set of loaded fonts that contains the
  fonts loaded before and adds only fonts whose load succeeded; a font that fails to load
  does not stop the fonts after it; a failed listing leaves the set as it was. The editor
  of a span whose font failed to load is rendered in \<open>sans-serif\<close>, and every font family
  the editor is given ends with \<open>sans-serif\<close>.
\<close>

theorem loadFonts_fallback_total:
  "(\<exists>loaded'. loadFonts BASE fetch face_load cancelled docId loaded = Inr loaded'
      \<and> loaded \<subseteq> loaded'
      \<and> (\<forall>f \<in> loaded' - loaded. \<exists>u. face_load f = Inr u)
      \<and> (\<forall>names. listFonts BASE fetch docId = Inr names \<longrightarrow>
            (\<forall>f \<in> set names. (\<exists>u. face_load f = Inr u) \<and> \<not> cancelled f \<longrightarrow> f \<in> loaded'))
      \<and> (\<forall>f. f \<notin> loaded \<and> (\<exists>failed. face_load f = Inl failed) \<longrightarrow>
            fontFamily loaded' f = ''sans-serif''))
   \<and> ((\<exists>failed. listFonts BASE fetch docId = Inl failed) \<longrightarrow>
        loadFonts BASE fetch face_load cancelled docId loaded = Inr loaded)
   \<and> suffix ''sans-serif'' (fontFamily shown f')"
proof (intro conjI)
  show "suffix ''sans-serif'' (fontFamily shown f')" by (rule fontFamily_suffix)
  show "(\<exists>failed. listFonts BASE fetch docId = Inl failed) \<longrightarrow>
        loadFonts BASE fetch face_load cancelled docId loaded = Inr loaded"
    by (auto simp: loadFonts_result)
  show "\<exists>loaded'. loadFonts BASE fetch face_load cancelled docId loaded = Inr loaded'
      \<and> loaded \<subseteq> loaded'
      \<and> (\<forall>f \<in> loaded' - loaded. \<exists>u. face_load f = Inr u)
      \<and> (\<forall>names. listFonts BASE fetch docId = Inr names \<longrightarrow>
            (\<forall>f \<in> set names. (\<exists>u. face_load f = Inr u) \<and> \<not> cancelled f \<longrightarrow> f \<in> loaded'))
      \<and> (\<forall>f. f \<notin> loaded \<and> (\<exists>failed. face_load f = Inl failed) \<longrightarrow>
            fontFamily loaded' f = ''sans-serif'')"
  proof (cases "listFonts BASE fetch docId")
    case (Inl failed)
    then show ?thesis by (auto simp: loadFonts_result fontFamily_def)
  next
    case (Inr names)
    then show ?thesis by (auto simp: loadFonts_result fontFamily_def)
  qed
qed

theorem loadFonts_fallback_total_witness:
  "listFonts [] (respond_ok [''Roboto-Regular'', ''Broken'', ''Lato'']) ''doc-1''
     = Inr [''Roboto-Regular'', ''Broken'', ''Lato'']
   \<and> loadFonts [] (respond_ok [''Roboto-Regular'', ''Broken'', ''Lato'']) example_face_load never_cancelled ''doc-1'' {}
     = Inr {''Roboto-Regular'', ''Lato''}
   \<and> fontFamily {''Roboto-Regular'', ''Lato''} ''Broken'' = ''sans-serif''
   \<and> (\<exists>failed. listFonts [] no_response ''doc-1'' = Inl failed)
   \<and> loadFonts [] no_response example_face_load never_cancelled ''doc-1'' {} = Inr {}"
proof -
  have listing: "listFonts [] (respond_ok [''Roboto-Regular'', ''Broken'', ''Lato'']) ''doc-1''
     = Inr [''Roboto-Regular'', ''Broken'', ''Lato'']"
    by (simp add: listFonts_def request_def respond_ok_def)
  have run: "loadFonts [] (respond_ok [''Roboto-Regular'', ''Broken'', ''Lato'']) example_face_load never_cancelled ''doc-1'' {}
     = Inr {''Roboto-Regular'', ''Lato''}"
    by (simp add: loadFonts_def listing example_face_load_def never_cancelled_def insert_commute)
  have nolist: "listFonts [] no_response ''doc-1'' = Inl (Exn (Some ''Failed to fetch''))"
    by (simp add: listFonts_def request_def no_response_def)
  have broken: "example_face_load ''Broken'' = Inl (Exn (Some ''load failed''))"
    by (simp add: example_face_load_def)
  show ?thesis
    using loadFonts_fallback_total [of "[]" "respond_ok [''Roboto-Regular'', ''Broken'', ''Lato'']"
        example_face_load never_cancelled "''doc-1''" "{}" "{}" "''Broken''"]
      loadFonts_fallback_total [of "[]" no_response
        example_face_load never_cancelled "''doc-1''" "{}" "{}" "''Broken''"]
      listing run nolist broken
    by auto
qed

end
